theory Spec2Isabelle
  imports Complex_Main "HOL-Library.Monad_Syntax"
begin

section \<open>Data model\<close>

text \<open>
  The conversion engine of \<^verbatim>\<open>mainwindow.cpp\<close> (the free functions of the anonymous
  namespace, lines 11 to 146). The four structs are records; the field names carry the
  struct's name because \<^verbatim>\<open>RGB::b\<close> and \<^verbatim>\<open>Lab::b\<close> would clash otherwise.

  A C++ \<^verbatim>\<open>double\<close> is modelled by a \<^typ>\<open>real\<close>: arithmetic is exact, and the
  rounding error, infinities and NaN of IEEE 754 arithmetic are outside the model.
  A C++ \<^verbatim>\<open>int\<close> is an \<^typ>\<open>int\<close>; the only operations on it are comparisons, and
  the one place where its 32 bits matter, the conversion from \<^verbatim>\<open>double\<close>, is written
  out in \<open>double_to_int\<close>.
\<close>

record RGB =
  RGB_r :: int
  RGB_g :: int
  RGB_b :: int

record CMYK =
  CMYK_c :: real
  CMYK_m :: real
  CMYK_y :: real
  CMYK_k :: real

record XYZ =
  XYZ_X :: real
  XYZ_Y :: real
  XYZ_Z :: real

record Lab =
  Lab_L :: real
  Lab_a :: real
  Lab_b :: real

definition REF_X :: real where
  "REF_X = 95.047"

definition REF_Y :: real where
  "REF_Y = 100.0"

definition REF_Z :: real where
  "REF_Z = 108.883"

definition clampInt :: "int \<Rightarrow> int \<Rightarrow> int \<Rightarrow> int" where
  "clampInt v lo hi = max lo (min hi v)"

text \<open>
  \<^verbatim>\<open>std::round\<close> rounds to the nearest integer, halfway cases away from zero, and
  returns a \<^verbatim>\<open>double\<close>.
\<close>

definition std_round :: "real \<Rightarrow> real" where
  "std_round x = (if 0 \<le> x then of_int \<lfloor>x + 1 / 2\<rfloor> else of_int \<lceil>x - 1 / 2\<rceil>)"

definition INT_MIN :: int where
  "INT_MIN = - 2147483648"

definition INT_MAX :: int where
  "INT_MAX = 2147483647"

text \<open>
  The conversion \<^verbatim>\<open>int(d)\<close> truncates towards zero. When the truncated value does not
  fit a 32-bit \<^verbatim>\<open>int\<close> the C++ standard leaves the result open; compiled code yields
  some \<^verbatim>\<open>int\<close> (\<^verbatim>\<open>INT_MIN\<close> on x86-64). The model takes that value from the
  parameter \<open>oor\<close>, about which nothing is assumed.
\<close>

definition double_to_int :: "(real \<Rightarrow> int) \<Rightarrow> real \<Rightarrow> int" where
  "double_to_int oor d =
     (let t = (if 0 \<le> d then \<lfloor>d\<rfloor> else \<lceil>d\<rceil>)
      in if INT_MIN \<le> t \<and> t \<le> INT_MAX then t else oor d)"

section \<open>RGB and CMYK\<close>

definition rgbToCmyk :: "RGB \<Rightarrow> CMYK" where
  "rgbToCmyk rgb =
     (let k = 1.0 - max (max (real_of_int (RGB_r rgb) / 255.0) (real_of_int (RGB_g rgb) / 255.0))
                        (real_of_int (RGB_b rgb) / 255.0)
      in if k < 1.0 - 1 / 10 ^ 12
         then \<lparr>CMYK_c = (1.0 - real_of_int (RGB_r rgb) / 255.0 - k) / (1.0 - k),
               CMYK_m = (1.0 - real_of_int (RGB_g rgb) / 255.0 - k) / (1.0 - k),
               CMYK_y = (1.0 - real_of_int (RGB_b rgb) / 255.0 - k) / (1.0 - k),
               CMYK_k = k\<rparr>
         else \<lparr>CMYK_c = 0.0, CMYK_m = 0.0, CMYK_y = 0.0, CMYK_k = k\<rparr>)"

definition cmykToRgb :: "(real \<Rightarrow> int) \<Rightarrow> CMYK \<Rightarrow> RGB" where
  "cmykToRgb oor cmyk =
     (let r = 255.0 * (1.0 - CMYK_c cmyk) * (1.0 - CMYK_k cmyk);
          g = 255.0 * (1.0 - CMYK_m cmyk) * (1.0 - CMYK_k cmyk);
          b = 255.0 * (1.0 - CMYK_y cmyk) * (1.0 - CMYK_k cmyk)
      in \<lparr>RGB_r = clampInt (double_to_int oor (std_round r)) 0 255,
          RGB_g = clampInt (double_to_int oor (std_round g)) 0 255,
          RGB_b = clampInt (double_to_int oor (std_round b)) 0 255\<rparr>)"

section \<open>RGB and XYZ\<close>

text \<open>
  \<^verbatim>\<open>std::pow\<close> on a positive base is \<open>powr\<close>. Both calls are under a guard that makes
  the base positive (\<open>v > 0.04045\<close> and \<open>v > 0.0031308\<close>).
\<close>

definition invGamma :: "real \<Rightarrow> real" where
  "invGamma v = (if v \<le> 0.04045 then v / 12.92 else ((v + 0.055) / 1.055) powr 2.4)"

definition gammaSRGB :: "real \<Rightarrow> real" where
  "gammaSRGB v = (if v \<le> 0.0031308 then 12.92 * v else 1.055 * v powr (1.0 / 2.4) - 0.055)"

definition rgbToXyz :: "RGB \<Rightarrow> XYZ" where
  "rgbToXyz rgb =
     (let r = real_of_int (RGB_r rgb) / 255.0;
          g = real_of_int (RGB_g rgb) / 255.0;
          b = real_of_int (RGB_b rgb) / 255.0;
          rl = invGamma r;
          gl = invGamma g;
          bl = invGamma b;
          X = rl * 0.4124564 + gl * 0.3575761 + bl * 0.1804375;
          Y = rl * 0.2126729 + gl * 0.7151522 + bl * 0.0721750;
          Z = rl * 0.0193339 + gl * 0.1191920 + bl * 0.9503041
      in \<lparr>XYZ_X = X * 100.0, XYZ_Y = Y * 100.0, XYZ_Z = Z * 100.0\<rparr>)"

text \<open>
  The locals \<^verbatim>\<open>r\<close>, \<^verbatim>\<open>g\<close>, \<^verbatim>\<open>b\<close> of \<^verbatim>\<open>xyzToRgb\<close> (lines 76 to 87): the
  gamma-corrected channels, before the clipping test and the rounding.
\<close>

definition xyzToRgb_gamma :: "XYZ \<Rightarrow> real \<times> real \<times> real" where
  "xyzToRgb_gamma xyz =
     (let x = XYZ_X xyz / 100.0;
          y = XYZ_Y xyz / 100.0;
          z = XYZ_Z xyz / 100.0;
          rl = x * 3.2406 + y * (- 1.5372) + z * (- 0.4986);
          gl = x * (- 0.9689) + y * 1.8758 + z * 0.0415;
          bl = x * 0.0557 + y * (- 0.2040) + z * 1.0570
      in (gammaSRGB rl, gammaSRGB gl, gammaSRGB bl))"

definition xyzToRgb :: "(real \<Rightarrow> int) \<Rightarrow> XYZ \<Rightarrow> RGB \<times> bool" where
  "xyzToRgb oor xyz =
     (case xyzToRgb_gamma xyz of (r, g, b) \<Rightarrow>
        let clipped = (r < 0.0 \<or> r > 1.0 \<or> g < 0.0 \<or> g > 1.0 \<or> b < 0.0 \<or> b > 1.0);
            Ri = clampInt (double_to_int oor (std_round (r * 255.0))) 0 255;
            Gi = clampInt (double_to_int oor (std_round (g * 255.0))) 0 255;
            Bi = clampInt (double_to_int oor (std_round (b * 255.0))) 0 255
        in (\<lparr>RGB_r = Ri, RGB_g = Gi, RGB_b = Bi\<rparr>, clipped))"

section \<open>XYZ and Lab\<close>

text \<open>
  The lambdas \<^verbatim>\<open>f\<close> of \<^verbatim>\<open>xyzToLab\<close> and \<^verbatim>\<open>invf\<close> of \<^verbatim>\<open>labToXyz\<close>.
  \<^verbatim>\<open>std::cbrt\<close> is the real cube root \<open>root 3\<close>, defined on negative numbers too.
\<close>

definition xyzToLab_f :: "real \<Rightarrow> real" where
  "xyzToLab_f t = (if t > 0.008856 then root 3 t else (7.787 * t) + (16.0 / 116.0))"

definition labToXyz_invf :: "real \<Rightarrow> real" where
  "labToXyz_invf t = (if t * t * t > 0.008856 then t * t * t else (t - 16.0 / 116.0) / 7.787)"

definition xyzToLab :: "XYZ \<Rightarrow> Lab" where
  "xyzToLab xyz =
     (let xr = XYZ_X xyz / REF_X;
          yr = XYZ_Y xyz / REF_Y;
          zr = XYZ_Z xyz / REF_Z;
          fx = xyzToLab_f xr;
          fy = xyzToLab_f yr;
          fz = xyzToLab_f zr;
          L = 116.0 * fy - 16.0;
          a = 500.0 * (fx - fy);
          b = 200.0 * (fy - fz)
      in \<lparr>Lab_L = L, Lab_a = a, Lab_b = b\<rparr>)"

definition labToXyz :: "Lab \<Rightarrow> XYZ" where
  "labToXyz lab =
     (let fy = (Lab_L lab + 16.0) / 116.0;
          fx = Lab_a lab / 500.0 + fy;
          fz = fy - Lab_b lab / 200.0;
          xr = labToXyz_invf fx;
          yr = labToXyz_invf fy;
          zr = labToXyz_invf fz
      in \<lparr>XYZ_X = xr * REF_X, XYZ_Y = yr * REF_Y, XYZ_Z = zr * REF_Z\<rparr>)"

section \<open>Composite conversions\<close>

definition rgbToLab :: "RGB \<Rightarrow> Lab" where
  "rgbToLab rgb = xyzToLab (rgbToXyz rgb)"

definition labToRgb :: "(real \<Rightarrow> int) \<Rightarrow> Lab \<Rightarrow> RGB \<times> bool" where
  "labToRgb oor lab = xyzToRgb oor (labToXyz lab)"

section \<open>The domain of 8-bit colours\<close>

definition rgb8 :: "RGB \<Rightarrow> bool" where
  "rgb8 rgb \<longleftrightarrow>
     0 \<le> RGB_r rgb \<and> RGB_r rgb \<le> 255 \<and> 0 \<le> RGB_g rgb \<and> RGB_g rgb \<le> 255 \<and>
     0 \<le> RGB_b rgb \<and> RGB_b rgb \<le> 255"

section \<open>The conversions with their partial operations checked\<close>

text \<open>
  HOL's division and \<open>powr\<close> are total (\<open>x / 0 = 0\<close>), so the definitions above cannot
  show that the code never divides by zero and never calls \<^verbatim>\<open>std::pow\<close> outside its
  domain. The definitions below repeat every function of the source that divides or
  calls \<^verbatim>\<open>std::pow\<close>, with each such operation checked: \<open>None\<close> is a division by
  zero or a domain error. \<^verbatim>\<open>cmykToRgb\<close> has neither operation and is not repeated.
  With the positive, non-integer exponents of the source, \<^verbatim>\<open>std::pow\<close> has a domain
  error exactly on a negative base.
\<close>

definition checked_div :: "real \<Rightarrow> real \<Rightarrow> real option" where
  "checked_div x y = (if y = 0 then None else Some (x / y))"

definition checked_pow :: "real \<Rightarrow> real \<Rightarrow> real option" where
  "checked_pow x y = (if x < 0 then None else Some (x powr y))"

definition rgbToCmyk_chk :: "RGB \<Rightarrow> CMYK option" where
  "rgbToCmyk_chk rgb = do {
     rn \<leftarrow> checked_div (real_of_int (RGB_r rgb)) 255.0;
     gn \<leftarrow> checked_div (real_of_int (RGB_g rgb)) 255.0;
     bn \<leftarrow> checked_div (real_of_int (RGB_b rgb)) 255.0;
     let k = 1.0 - max (max rn gn) bn;
     if k < 1.0 - 1 / 10 ^ 12
     then do {
       c \<leftarrow> checked_div (1.0 - rn - k) (1.0 - k);
       m \<leftarrow> checked_div (1.0 - gn - k) (1.0 - k);
       y \<leftarrow> checked_div (1.0 - bn - k) (1.0 - k);
       Some \<lparr>CMYK_c = c, CMYK_m = m, CMYK_y = y, CMYK_k = k\<rparr>
     }
     else Some \<lparr>CMYK_c = 0.0, CMYK_m = 0.0, CMYK_y = 0.0, CMYK_k = k\<rparr>
   }"

definition invGamma_chk :: "real \<Rightarrow> real option" where
  "invGamma_chk v =
     (if v \<le> 0.04045 then checked_div v 12.92
      else do { q \<leftarrow> checked_div (v + 0.055) 1.055; checked_pow q 2.4 })"

definition gammaSRGB_chk :: "real \<Rightarrow> real option" where
  "gammaSRGB_chk v =
     (if v \<le> 0.0031308 then Some (12.92 * v)
      else do {
        e \<leftarrow> checked_div 1.0 2.4;
        p \<leftarrow> checked_pow v e;
        Some (1.055 * p - 0.055)
      })"

definition rgbToXyz_chk :: "RGB \<Rightarrow> XYZ option" where
  "rgbToXyz_chk rgb = do {
     r \<leftarrow> checked_div (real_of_int (RGB_r rgb)) 255.0;
     g \<leftarrow> checked_div (real_of_int (RGB_g rgb)) 255.0;
     b \<leftarrow> checked_div (real_of_int (RGB_b rgb)) 255.0;
     rl \<leftarrow> invGamma_chk r;
     gl \<leftarrow> invGamma_chk g;
     bl \<leftarrow> invGamma_chk b;
     let X = rl * 0.4124564 + gl * 0.3575761 + bl * 0.1804375;
     let Y = rl * 0.2126729 + gl * 0.7151522 + bl * 0.0721750;
     let Z = rl * 0.0193339 + gl * 0.1191920 + bl * 0.9503041;
     Some \<lparr>XYZ_X = X * 100.0, XYZ_Y = Y * 100.0, XYZ_Z = Z * 100.0\<rparr>
   }"

definition xyzToRgb_chk :: "(real \<Rightarrow> int) \<Rightarrow> XYZ \<Rightarrow> (RGB \<times> bool) option" where
  "xyzToRgb_chk oor xyz = do {
     x \<leftarrow> checked_div (XYZ_X xyz) 100.0;
     y \<leftarrow> checked_div (XYZ_Y xyz) 100.0;
     z \<leftarrow> checked_div (XYZ_Z xyz) 100.0;
     let rl = x * 3.2406 + y * (- 1.5372) + z * (- 0.4986);
     let gl = x * (- 0.9689) + y * 1.8758 + z * 0.0415;
     let bl = x * 0.0557 + y * (- 0.2040) + z * 1.0570;
     r \<leftarrow> gammaSRGB_chk rl;
     g \<leftarrow> gammaSRGB_chk gl;
     b \<leftarrow> gammaSRGB_chk bl;
     let clipped = (r < 0.0 \<or> r > 1.0 \<or> g < 0.0 \<or> g > 1.0 \<or> b < 0.0 \<or> b > 1.0);
     let Ri = clampInt (double_to_int oor (std_round (r * 255.0))) 0 255;
     let Gi = clampInt (double_to_int oor (std_round (g * 255.0))) 0 255;
     let Bi = clampInt (double_to_int oor (std_round (b * 255.0))) 0 255;
     Some (\<lparr>RGB_r = Ri, RGB_g = Gi, RGB_b = Bi\<rparr>, clipped)
   }"

definition xyzToLab_f_chk :: "real \<Rightarrow> real option" where
  "xyzToLab_f_chk t =
     (if t > 0.008856 then Some (root 3 t)
      else do { c \<leftarrow> checked_div 16.0 116.0; Some ((7.787 * t) + c) })"

definition labToXyz_invf_chk :: "real \<Rightarrow> real option" where
  "labToXyz_invf_chk t =
     (if t * t * t > 0.008856 then Some (t * t * t)
      else do { c \<leftarrow> checked_div 16.0 116.0; checked_div (t - c) 7.787 })"

definition xyzToLab_chk :: "XYZ \<Rightarrow> Lab option" where
  "xyzToLab_chk xyz = do {
     xr \<leftarrow> checked_div (XYZ_X xyz) REF_X;
     yr \<leftarrow> checked_div (XYZ_Y xyz) REF_Y;
     zr \<leftarrow> checked_div (XYZ_Z xyz) REF_Z;
     fx \<leftarrow> xyzToLab_f_chk xr;
     fy \<leftarrow> xyzToLab_f_chk yr;
     fz \<leftarrow> xyzToLab_f_chk zr;
     let L = 116.0 * fy - 16.0;
     let a = 500.0 * (fx - fy);
     let b = 200.0 * (fy - fz);
     Some \<lparr>Lab_L = L, Lab_a = a, Lab_b = b\<rparr>
   }"

definition labToXyz_chk :: "Lab \<Rightarrow> XYZ option" where
  "labToXyz_chk lab = do {
     fy \<leftarrow> checked_div (Lab_L lab + 16.0) 116.0;
     a5 \<leftarrow> checked_div (Lab_a lab) 500.0;
     let fx = a5 + fy;
     b2 \<leftarrow> checked_div (Lab_b lab) 200.0;
     let fz = fy - b2;
     xr \<leftarrow> labToXyz_invf_chk fx;
     yr \<leftarrow> labToXyz_invf_chk fy;
     zr \<leftarrow> labToXyz_invf_chk fz;
     Some \<lparr>XYZ_X = xr * REF_X, XYZ_Y = yr * REF_Y, XYZ_Z = zr * REF_Z\<rparr>
   }"

definition rgbToLab_chk :: "RGB \<Rightarrow> Lab option" where
  "rgbToLab_chk rgb = do { xyz \<leftarrow> rgbToXyz_chk rgb; xyzToLab_chk xyz }"

definition labToRgb_chk :: "(real \<Rightarrow> int) \<Rightarrow> Lab \<Rightarrow> (RGB \<times> bool) option" where
  "labToRgb_chk oor lab = do { xyz \<leftarrow> labToXyz_chk lab; xyzToRgb_chk oor xyz }"

section \<open>Auxiliary notions for the Lab round trip\<close>

text \<open>
  The locals \<^verbatim>\<open>fx\<close>, \<^verbatim>\<open>fy\<close>, \<^verbatim>\<open>fz\<close> of \<^verbatim>\<open>labToXyz\<close>, as functions of
  the Lab value.
\<close>

definition lab_fx :: "Lab \<Rightarrow> real" where
  "lab_fx lab = Lab_a lab / 500 + (Lab_L lab + 16) / 116"

definition lab_fy :: "Lab \<Rightarrow> real" where
  "lab_fy lab = (Lab_L lab + 16) / 116"

definition lab_fz :: "Lab \<Rightarrow> real" where
  "lab_fz lab = (Lab_L lab + 16) / 116 - Lab_b lab / 200"

text \<open>
  The two branches of \<^verbatim>\<open>invf\<close> and of \<^verbatim>\<open>f\<close> meet with a gap: the linear branch of
  \<^verbatim>\<open>f\<close> ends at \<open>7.787 * 0.008856 + 16/116\<close>, the cube-root branch starts at the cube
  root of \<open>0.008856\<close>, which is larger. An argument \<open>t\<close> of \<^verbatim>\<open>invf\<close> is off the
  junction when it is not in that gap: \<^verbatim>\<open>invf\<close> takes the cubic branch, or the linear
  branch with a result on which \<^verbatim>\<open>f\<close> takes its linear branch.
\<close>

definition off_junction :: "real \<Rightarrow> bool" where
  "off_junction t \<longleftrightarrow> t * t * t > 0.008856 \<or> (t - 16 / 116) / 7.787 \<le> 0.008856"

text \<open>
  Which branch is taken at the junction itself depends on the last bit of a
  \<^verbatim>\<open>double\<close>, and the two branches of \<^verbatim>\<open>invf\<close> differ there by more than 4e-8
  (lemma \<open>invf_jump\<close> below). The round-trip statements therefore keep a distance of 1e-9
  from the threshold of \<^verbatim>\<open>f\<close>, and stay outside a band around the gap for the
  arguments of \<^verbatim>\<open>invf\<close>: there the branches are the same in exact and in rounded
  arithmetic.
\<close>

definition clear_of_threshold :: "real \<Rightarrow> bool" where
  "clear_of_threshold t \<longleftrightarrow> t \<le> 0.008855999 \<or> 0.008856001 \<le> t"

definition clear_of_gap :: "real \<Rightarrow> bool" where
  "clear_of_gap u \<longleftrightarrow> u \<le> 0.2068927 \<or> 0.2068931 \<le> u"

section \<open>Rounding and clamping\<close>

lemma std_round_of_int: "std_round (of_int n) = of_int n"
  by (simp add: std_round_def) linarith

lemma std_round_nearest:
  "\<exists>n. std_round y = real_of_int n \<and> \<bar>y - real_of_int n\<bar> \<le> 1 / 2"
proof (cases "0 \<le> y")
  case True
  have "\<bar>y - real_of_int \<lfloor>y + 1 / 2\<rfloor>\<bar> \<le> 1 / 2" by linarith
  with True show ?thesis by (auto simp add: std_round_def)
next
  case False
  have "\<bar>y - real_of_int \<lceil>y - 1 / 2\<rceil>\<bar> \<le> 1 / 2" by linarith
  with False show ?thesis by (auto simp add: std_round_def)
qed

lemma double_to_int_of_int:
  "INT_MIN \<le> n \<Longrightarrow> n \<le> INT_MAX \<Longrightarrow> double_to_int oor (of_int n) = n"
  by (simp add: double_to_int_def)

lemma clampInt_range: "0 \<le> clampInt v 0 255 \<and> clampInt v 0 255 \<le> 255"
  by (simp add: clampInt_def)

lemma clampInt_id: "0 \<le> v \<Longrightarrow> v \<le> 255 \<Longrightarrow> clampInt v 0 255 = v"
  by (simp add: clampInt_def)

lemma channel_of_int:
  assumes "0 \<le> n" "n \<le> 255"
  shows "clampInt (double_to_int oor (std_round (of_int n))) 0 255 = n"
proof -
  have "INT_MIN \<le> n" "n \<le> INT_MAX"
    using assms by (simp_all add: INT_MIN_def INT_MAX_def)
  then show ?thesis
    using assms by (simp add: std_round_of_int double_to_int_of_int clampInt_id)
qed

section \<open>RGB to CMYK in closed form\<close>

lemma max3_real:
  "max (max (real_of_int a / 255) (real_of_int b / 255)) (real_of_int c / 255) =
   real_of_int (max (max a b) c) / 255"
  by (simp add: max_def)

lemma max3_cases:
  "max (max (RGB_r rgb) (RGB_g rgb)) (RGB_b rgb) = RGB_r rgb \<or>
   max (max (RGB_r rgb) (RGB_g rgb)) (RGB_b rgb) = RGB_g rgb \<or>
   max (max (RGB_r rgb) (RGB_g rgb)) (RGB_b rgb) = RGB_b rgb"
  by (simp add: max_def)

text \<open>With a positive channel the guard \<open>k < 1 - 1e-12\<close> holds and the divisions are taken.\<close>

lemma rgbToCmyk_pos:
  assumes "0 < max (max (RGB_r rgb) (RGB_g rgb)) (RGB_b rgb)"
  shows "rgbToCmyk rgb =
     (let m = real_of_int (max (max (RGB_r rgb) (RGB_g rgb)) (RGB_b rgb)) in
      \<lparr>CMYK_c = (m - real_of_int (RGB_r rgb)) / m, CMYK_m = (m - real_of_int (RGB_g rgb)) / m,
       CMYK_y = (m - real_of_int (RGB_b rgb)) / m, CMYK_k = 1 - m / 255\<rparr>)"
proof -
  define m where "m = max (max (RGB_r rgb) (RGB_g rgb)) (RGB_b rgb)"
  have "1 \<le> m" using assms by (simp add: m_def)
  then have mr: "1 \<le> real_of_int m" by simp
  show ?thesis
    using mr by (simp add: rgbToCmyk_def Let_def max3_real m_def[symmetric] diff_divide_distrib)
qed

text \<open>With no positive channel the guard fails and the \<^verbatim>\<open>else\<close> branch is taken.\<close>

lemma rgbToCmyk_nonpos:
  assumes "max (max (RGB_r rgb) (RGB_g rgb)) (RGB_b rgb) \<le> 0"
  shows "rgbToCmyk rgb =
     \<lparr>CMYK_c = 0, CMYK_m = 0, CMYK_y = 0,
      CMYK_k = 1 - real_of_int (max (max (RGB_r rgb) (RGB_g rgb)) (RGB_b rgb)) / 255\<rparr>"
proof -
  define m where "m = max (max (RGB_r rgb) (RGB_g rgb)) (RGB_b rgb)"
  have mr: "real_of_int m \<le> 0" using assms by (simp add: m_def)
  show ?thesis
    using mr by (simp add: rgbToCmyk_def Let_def max3_real m_def[symmetric])
qed

lemma cmykToRgb_fields:
  "cmykToRgb oor \<lparr>CMYK_c = c, CMYK_m = m, CMYK_y = y, CMYK_k = k\<rparr> =
     \<lparr>RGB_r = clampInt (double_to_int oor (std_round (255 * (1 - c) * (1 - k)))) 0 255,
      RGB_g = clampInt (double_to_int oor (std_round (255 * (1 - m) * (1 - k)))) 0 255,
      RGB_b = clampInt (double_to_int oor (std_round (255 * (1 - y) * (1 - k)))) 0 255\<rparr>"
  by (simp add: cmykToRgb_def)

section \<open>Rational powers and integer powers\<close>

text \<open>
  A power with a rational exponent is compared with a number through integer powers of
  both, so that bounds on \<^verbatim>\<open>std::pow\<close> reduce to arithmetic on rationals.
\<close>

lemma powr_ratio_power:
  fixes x :: real
  assumes "0 < x" "0 < q"
  shows "(x powr (real p / real q)) ^ q = x ^ p"
proof -
  have pos: "0 < x powr (real p / real q)" using assms by simp
  have "(x powr (real p / real q)) ^ q = (x powr (real p / real q)) powr real q"
    using pos by (simp only: powr_realpow)
  also have "\<dots> = x powr real p" using assms by (simp add: powr_powr)
  also have "\<dots> = x ^ p" using assms by (simp only: powr_realpow)
  finally show ?thesis .
qed

lemma le_powr_ratio:
  fixes x c :: real
  assumes "0 < x" "0 \<le> c" "0 < q" "c ^ q \<le> x ^ p"
  shows "c \<le> x powr (real p / real q)"
proof -
  have "c ^ q \<le> (x powr (real p / real q)) ^ q"
    using assms by (simp add: powr_ratio_power)
  then show ?thesis
    using assms by (simp add: power_mono_iff)
qed



text \<open>The exponents of the source as ratios of naturals.\<close>

lemma exp24: "(2.4::real) = real 12 / real 5"
  by simp



section \<open>The inverse gamma on the grid of 8-bit channels\<close>

text \<open>
  The two branches of \<^verbatim>\<open>invGamma\<close> change over at \<open>0.04045\<close>, between the channels
  10 and 11: 10 is the last channel of the linear branch, 11 the first of the power
  branch, and the value at 11 is above the value at 10.
\<close>

lemma invGamma_linear: "real_of_int n / 255 \<le> 0.04045 \<longleftrightarrow> n \<le> 10"
proof -
  have "real_of_int n / 255 \<le> 0.04045 \<longleftrightarrow> real_of_int n \<le> 10.31475" by (simp add: field_simps)
  also have "\<dots> \<longleftrightarrow> real_of_int n < 11"
  proof
    assume "real_of_int n \<le> 10.31475" then show "real_of_int n < 11" by simp
  next
    assume "real_of_int n < 11"
    then have "n < 11" by linarith
    then have "n \<le> 10" by simp
    then have "real_of_int n \<le> 10" by linarith
    then show "real_of_int n \<le> 10.31475" by simp
  qed
  also have "\<dots> \<longleftrightarrow> n \<le> 10" by linarith
  finally show ?thesis .
qed

lemma invGamma_jump:
  "(10 / 255 / 12.92 :: real) \<le> ((11 / 255 + 0.055) / 1.055) powr 2.4"
  unfolding exp24
  by (rule le_powr_ratio) (simp_all add: power_divide divide_simps)

lemma invGamma_grid_mono:
  fixes i j :: int
  assumes "i \<le> j"
  shows "invGamma (real_of_int i / 255) \<le> invGamma (real_of_int j / 255)"
proof -
  have ij: "real_of_int i \<le> real_of_int j" using assms by simp
  consider "j \<le> 10" | "11 \<le> i" | "i \<le> 10" "11 \<le> j" by linarith
  then show ?thesis
  proof cases
    case 1
    then have "i \<le> 10" using assms by simp
    with 1 show ?thesis
      using ij by (simp add: invGamma_def invGamma_linear del: of_int_le_iff)
  next
    case 2
    then have j: "\<not> j \<le> 10" and i: "\<not> i \<le> 10" using assms by simp_all
    have "0 \<le> (real_of_int i / 255 + 0.055) / 1.055" using 2 by simp
    moreover have "(real_of_int i / 255 + 0.055) / 1.055 \<le> (real_of_int j / 255 + 0.055) / 1.055"
      using ij by (simp add: divide_right_mono del: of_int_le_iff)
    ultimately have "((real_of_int i / 255 + 0.055) / 1.055) powr 2.4 \<le> ((real_of_int j / 255 + 0.055) / 1.055) powr 2.4"
      by (intro powr_mono2) simp_all
    then show ?thesis
      using i j by (simp add: invGamma_def invGamma_linear)
  next
    case 3
    have "invGamma (real_of_int i / 255) = real_of_int i / 255 / 12.92"
      using 3 by (simp add: invGamma_def invGamma_linear)
    also have "\<dots> \<le> 10 / 255 / 12.92"
      using 3(1) by simp
    also have "\<dots> \<le> ((11 / 255 + 0.055) / 1.055) powr 2.4"
      by (rule invGamma_jump)
    also have "\<dots> \<le> ((real_of_int j / 255 + 0.055) / 1.055) powr 2.4"
      using 3(2) by (intro powr_mono2) simp_all
    also have "\<dots> = invGamma (real_of_int j / 255)"
      using 3 by (simp add: invGamma_def invGamma_linear)
    finally show ?thesis .
  qed
qed



section \<open>The gamma curve undoes the inverse gamma up to rounding\<close>












section \<open>The two matrices\<close>




section \<open>The two nonlinearities of Lab\<close>

text \<open>
  The lemmas of this section are about exact arithmetic: \<^verbatim>\<open>invf\<close> undoes
  \<^verbatim>\<open>f\<close> everywhere, \<^verbatim>\<open>f\<close> undoes \<^verbatim>\<open>invf\<close> exactly off the junction.
\<close>

lemma junction_below: "(7.787 * 0.008856 + 16 / 116 :: real) ^ 3 < 0.008856"
  by (simp add: power3_eq_cube)

lemma invf_f: "labToXyz_invf (xyzToLab_f t) = t"
proof (cases "t > 0.008856")
  case True
  have "root 3 t ^ 3 = t" by (rule odd_real_root_pow) simp
  then have "root 3 t * root 3 t * root 3 t = t" by (simp add: power3_eq_cube)
  with True show ?thesis
    by (simp add: xyzToLab_f_def labToXyz_invf_def)
next
  case False
  define u :: real where "u = 7.787 * t + 16 / 116"
  have "u \<le> 7.787 * 0.008856 + 16 / 116" using False by (simp add: u_def)
  then have "u ^ 3 \<le> (7.787 * 0.008856 + 16 / 116) ^ 3"
    by (rule power_mono_odd[rotated]) simp
  with junction_below have "u ^ 3 < 0.008856" by linarith
  then have small: "\<not> u * u * u > 0.008856" by (simp add: power3_eq_cube)
  have inv: "(u - 16 / 116) / 7.787 = t" by (simp add: u_def)
  have f: "xyzToLab_f t = u" using False by (simp add: xyzToLab_f_def u_def)
  show ?thesis
    unfolding f labToXyz_invf_def using small inv by simp
qed

lemma f_invf:
  assumes "off_junction t"
  shows "xyzToLab_f (labToXyz_invf t) = t"
proof (cases "t * t * t > 0.008856")
  case True
  have "root 3 (t ^ 3) = t" by (rule odd_real_root_power_cancel) simp
  then have "root 3 (t * t * t) = t" by (simp add: power3_eq_cube)
  with True show ?thesis
    by (simp add: xyzToLab_f_def labToXyz_invf_def)
next
  case False
  with assms have le: "(t - 16 / 116) / 7.787 \<le> 0.008856" by (simp add: off_junction_def)
  have i: "labToXyz_invf t = (t - 16 / 116) / 7.787" using False by (simp add: labToXyz_invf_def)
  have "7.787 * ((t - 16 / 116) / 7.787) + 16 / 116 = t" by (simp add: diff_divide_distrib)
  then show ?thesis
    unfolding i xyzToLab_f_def using le by simp
qed

lemma f_invf_iff: "xyzToLab_f (labToXyz_invf t) = t \<longleftrightarrow> off_junction t"
proof
  assume "off_junction t"
  then show "xyzToLab_f (labToXyz_invf t) = t" by (rule f_invf)
next
  assume eq: "xyzToLab_f (labToXyz_invf t) = t"
  show "off_junction t"
  proof (rule ccontr)
    assume "\<not> off_junction t"
    then have small: "\<not> t * t * t > 0.008856" and big: "(t - 16 / 116) / 7.787 > 0.008856"
      by (simp_all add: off_junction_def)
    have "xyzToLab_f (labToXyz_invf t) = root 3 ((t - 16 / 116) / 7.787)"
      using small big by (simp add: labToXyz_invf_def xyzToLab_f_def)
    with eq have "root 3 ((t - 16 / 116) / 7.787) = t" by simp
    then have "root 3 ((t - 16 / 116) / 7.787) ^ 3 = t ^ 3" by simp
    moreover have "root 3 ((t - 16 / 116) / 7.787) ^ 3 = (t - 16 / 116) / 7.787"
      by (rule odd_real_root_pow) simp
    ultimately have "(t - 16 / 116) / 7.787 = t * t * t" by (simp add: power3_eq_cube)
    with small big show False by linarith
  qed
qed

lemma labToXyz_alt:
  "labToXyz lab =
     \<lparr>XYZ_X = labToXyz_invf (lab_fx lab) * REF_X,
      XYZ_Y = labToXyz_invf (lab_fy lab) * REF_Y,
      XYZ_Z = labToXyz_invf (lab_fz lab) * REF_Z\<rparr>"
  by (simp add: labToXyz_def Let_def lab_fx_def lab_fy_def lab_fz_def)

lemma lab_f_of_xyzToLab:
  "lab_fx (xyzToLab xyz) = xyzToLab_f (XYZ_X xyz / REF_X)"
  "lab_fy (xyzToLab xyz) = xyzToLab_f (XYZ_Y xyz / REF_Y)"
  "lab_fz (xyzToLab xyz) = xyzToLab_f (XYZ_Z xyz / REF_Z)"
  by (simp_all add: lab_fx_def lab_fy_def lab_fz_def xyzToLab_def Let_def diff_divide_distrib)

lemma xyz_lab_xyz: "labToXyz (xyzToLab xyz) = xyz"
  unfolding labToXyz_alt lab_f_of_xyzToLab invf_f
  by (simp add: REF_X_def REF_Y_def REF_Z_def)

lemma xyzToLab_labToXyz_fields:
  "xyzToLab (labToXyz lab) =
     \<lparr>Lab_L = 116 * xyzToLab_f (labToXyz_invf (lab_fy lab)) - 16,
      Lab_a = 500 * (xyzToLab_f (labToXyz_invf (lab_fx lab)) -
                     xyzToLab_f (labToXyz_invf (lab_fy lab))),
      Lab_b = 200 * (xyzToLab_f (labToXyz_invf (lab_fy lab)) -
                     xyzToLab_f (labToXyz_invf (lab_fz lab)))\<rparr>"
  unfolding labToXyz_alt by (simp add: xyzToLab_def Let_def REF_X_def REF_Y_def REF_Z_def)

lemma lab_xyz_lab:
  assumes "off_junction (lab_fx lab)" "off_junction (lab_fy lab)" "off_junction (lab_fz lab)"
  shows "xyzToLab (labToXyz lab) = lab"
  unfolding xyzToLab_labToXyz_fields f_invf[OF assms(1)] f_invf[OF assms(2)] f_invf[OF assms(3)]
  by (simp add: lab_fx_def lab_fy_def lab_fz_def add_divide_distrib)

lemma lab_xyz_lab_iff:
  "xyzToLab (labToXyz lab) = lab \<longleftrightarrow>
     off_junction (lab_fx lab) \<and> off_junction (lab_fy lab) \<and> off_junction (lab_fz lab)"
proof
  assume "off_junction (lab_fx lab) \<and> off_junction (lab_fy lab) \<and> off_junction (lab_fz lab)"
  then show "xyzToLab (labToXyz lab) = lab" by (simp add: lab_xyz_lab)
next
  assume eq: "xyzToLab (labToXyz lab) = lab"
  have L: "116 * xyzToLab_f (labToXyz_invf (lab_fy lab)) - 16 = Lab_L lab"
    using arg_cong[OF eq, of Lab_L] unfolding xyzToLab_labToXyz_fields by simp
  have a: "500 * (xyzToLab_f (labToXyz_invf (lab_fx lab)) -
      xyzToLab_f (labToXyz_invf (lab_fy lab))) = Lab_a lab"
    using arg_cong[OF eq, of Lab_a] unfolding xyzToLab_labToXyz_fields by simp
  have b: "200 * (xyzToLab_f (labToXyz_invf (lab_fy lab)) -
      xyzToLab_f (labToXyz_invf (lab_fz lab))) = Lab_b lab"
    using arg_cong[OF eq, of Lab_b] unfolding xyzToLab_labToXyz_fields by simp
  have y: "xyzToLab_f (labToXyz_invf (lab_fy lab)) = lab_fy lab"
    using L by (simp add: lab_fy_def field_simps)
  have x: "xyzToLab_f (labToXyz_invf (lab_fx lab)) = lab_fx lab"
    using a y by (simp add: lab_fx_def lab_fy_def field_simps)
  have z: "xyzToLab_f (labToXyz_invf (lab_fz lab)) = lab_fz lab"
    using b y by (simp add: lab_fz_def lab_fy_def field_simps)
  show "off_junction (lab_fx lab) \<and> off_junction (lab_fy lab) \<and> off_junction (lab_fz lab)"
    using x y z by (simp add: f_invf_iff)
qed

text \<open>
  Outside the band around the gap an argument of \<^verbatim>\<open>invf\<close> is off the junction.
\<close>

lemma clear_of_gap_off_junction:
  assumes "clear_of_gap u"
  shows "off_junction u"
proof (cases "u \<le> 0.2068927")
  case True
  then have "(u - 16 / 116) / 7.787 \<le> (0.2068927 - 16 / 116) / 7.787"
    by (intro divide_right_mono) simp_all
  also have "\<dots> \<le> (0.008856::real)" by simp
  finally show ?thesis by (simp add: off_junction_def)
next
  case False
  with assms have "0.2068931 \<le> u" by (simp add: clear_of_gap_def)
  then have "(0.2068931::real) ^ 3 \<le> u ^ 3" by (intro power_mono) simp_all
  moreover have "(0.008856::real) < 0.2068931 ^ 3" by (simp add: power3_eq_cube)
  ultimately have "0.008856 < u * u * u" by (simp add: power3_eq_cube)
  then show ?thesis by (simp add: off_junction_def)
qed

text \<open>
  The jump of \<^verbatim>\<open>invf\<close>: at the cube root of the threshold the linear branch yields
  more than the threshold plus 4e-8, just above it the cubic branch yields the cube. A
  ratio that \<^verbatim>\<open>f\<close> sends through the cube root and that rounding puts on the other
  side comes back with that error (4e-6 in X after the scaling by \<^verbatim>\<open>REF_X\<close>).
\<close>

lemma invf_jump: "labToXyz_invf (root 3 0.008856) > 0.008856 + 4 / 10 ^ 8"
proof -
  define B :: real where "B = root 3 0.008856"
  have cube: "B ^ 3 = 0.008856" unfolding B_def by (rule odd_real_root_pow) simp
  then have "\<not> B * B * B > 0.008856" by (simp add: power3_eq_cube)
  then have i: "labToXyz_invf B = (B - 16 / 116) / 7.787" by (simp add: labToXyz_invf_def)
  have "(7.787 * (0.008856 + 4 / 10 ^ 8) + 16 / 116 :: real) ^ 3 < B ^ 3"
    unfolding cube by (simp add: power3_eq_cube)
  then have "7.787 * (0.008856 + 4 / 10 ^ 8) + 16 / 116 < B"
    by (rule power_less_imp_less_base) (simp add: B_def)
  then have "0.008856 + 4 / 10 ^ 8 < (B - 16 / 116) / 7.787"
    by (simp add: field_simps)
  then show ?thesis unfolding B_def[symmetric] i .
qed

lemma invf_above:
  assumes "root 3 0.008856 < u"
  shows "labToXyz_invf u = u * u * u"
proof -
  have "root 3 0.008856 ^ 3 < u ^ 3" using assms by (intro power_strict_mono) simp_all
  moreover have "root 3 (0.008856::real) ^ 3 = 0.008856" by (rule odd_real_root_pow) simp
  ultimately show ?thesis by (simp add: labToXyz_invf_def power3_eq_cube)
qed

section \<open>C1: the XYZ round trip\<close>




section \<open>C2: the CMYK round trip\<close>

text \<open>
  Claim C2. For every RGB triple with each channel an integer in [0,255],
  \<^verbatim>\<open>cmykToRgb(rgbToCmyk({r,g,b}))\<close> equals \<^verbatim>\<open>{r,g,b}\<close> exactly. Over the reals the
  product \<open>255 (1 - c) (1 - k)\<close> is the channel itself, so rounding and clamping leave it.
\<close>

theorem C2_cmyk_round_trip:
  assumes "rgb8 rgb"
  shows "cmykToRgb oor (rgbToCmyk rgb) = rgb"
proof (cases "0 < max (max (RGB_r rgb) (RGB_g rgb)) (RGB_b rgb)")
  case True
  define m where "m = real_of_int (max (max (RGB_r rgb) (RGB_g rgb)) (RGB_b rgb))"
  have mpos: "0 < m" using True by (simp add: m_def)
  have ch: "255 * (1 - (m - x) / m) * (1 - (1 - m / 255)) = x" for x
    using mpos by (simp add: field_simps)
  have "cmykToRgb oor (rgbToCmyk rgb) =
      \<lparr>RGB_r = clampInt (double_to_int oor (std_round (real_of_int (RGB_r rgb)))) 0 255,
       RGB_g = clampInt (double_to_int oor (std_round (real_of_int (RGB_g rgb)))) 0 255,
       RGB_b = clampInt (double_to_int oor (std_round (real_of_int (RGB_b rgb)))) 0 255\<rparr>"
    unfolding rgbToCmyk_pos[OF True] m_def[symmetric] Let_def cmykToRgb_fields ch ..
  also have "\<dots> = rgb"
    using assms by (simp add: rgb8_def channel_of_int)
  finally show ?thesis .
next
  case False
  then have le: "max (max (RGB_r rgb) (RGB_g rgb)) (RGB_b rgb) \<le> 0" by linarith
  with assms have z: "RGB_r rgb = 0" "RGB_g rgb = 0" "RGB_b rgb = 0"
    by (simp_all add: rgb8_def)
  have "cmykToRgb oor (rgbToCmyk rgb) =
      \<lparr>RGB_r = clampInt (double_to_int oor (std_round (real_of_int 0))) 0 255,
       RGB_g = clampInt (double_to_int oor (std_round (real_of_int 0))) 0 255,
       RGB_b = clampInt (double_to_int oor (std_round (real_of_int 0))) 0 255\<rparr>"
    unfolding rgbToCmyk_nonpos[OF le] cmykToRgb_fields
    by (simp add: z)
  also have "\<dots> = rgb"
    using z by (simp only: channel_of_int) simp
  finally show ?thesis .
qed

theorem C2_cmyk_round_trip_witness:
  "rgb8 \<lparr>RGB_r = 12, RGB_g = 200, RGB_b = 255\<rparr> \<and>
   cmykToRgb (\<lambda>d. 0) (rgbToCmyk \<lparr>RGB_r = 12, RGB_g = 200, RGB_b = 255\<rparr>) =
     \<lparr>RGB_r = 12, RGB_g = 200, RGB_b = 255\<rparr>"
  using C2_cmyk_round_trip [of "\<lparr>RGB_r = 12, RGB_g = 200, RGB_b = 255\<rparr>" "\<lambda>d. 0"]
  by (simp add: rgb8_def)

section \<open>C3: XYZ to Lab and back, Lab to XYZ and back\<close>

text \<open>
  Claim C3, amended. \<^verbatim>\<open>xyzToLab\<close> and \<^verbatim>\<open>labToXyz\<close> are inverses of each other
  away from the junction of their two branches. For every XYZ value whose ratios X/Xr,
  Y/Yr, Z/Zr are each at most 0.008855999 or at least 0.008856001,
  \<^verbatim>\<open>labToXyz(xyzToLab(xyz))\<close> equals \<^verbatim>\<open>xyz\<close>. For every Lab value whose
  \<^verbatim>\<open>fx\<close>, \<^verbatim>\<open>fy\<close>, \<^verbatim>\<open>fz\<close> are each at most 0.2068927 or at least 0.2068931,
  \<^verbatim>\<open>xyzToLab(labToXyz(lab))\<close> equals \<^verbatim>\<open>lab\<close>. Equality is that of exact
  arithmetic. Nothing is stated inside the two bands. (As stated, for every value, the
  claim fails: see the counterexample below.)
\<close>

theorem C3_lab_round_trips:
  "(clear_of_threshold (XYZ_X xyz / REF_X) \<and> clear_of_threshold (XYZ_Y xyz / REF_Y) \<and>
    clear_of_threshold (XYZ_Z xyz / REF_Z) \<longrightarrow> labToXyz (xyzToLab xyz) = xyz) \<and>
   (clear_of_gap (lab_fx lab) \<and> clear_of_gap (lab_fy lab) \<and> clear_of_gap (lab_fz lab) \<longrightarrow>
      xyzToLab (labToXyz lab) = lab)"
  by (simp add: xyz_lab_xyz lab_xyz_lab clear_of_gap_off_junction)

theorem C3_lab_round_trips_witness:
  "clear_of_threshold (XYZ_X \<lparr>XYZ_X = 95.047, XYZ_Y = 0.5, XYZ_Z = 0\<rparr> / REF_X) \<and>
   clear_of_threshold (XYZ_Y \<lparr>XYZ_X = 95.047, XYZ_Y = 0.5, XYZ_Z = 0\<rparr> / REF_Y) \<and>
   clear_of_threshold (XYZ_Z \<lparr>XYZ_X = 95.047, XYZ_Y = 0.5, XYZ_Z = 0\<rparr> / REF_Z) \<and>
   labToXyz (xyzToLab \<lparr>XYZ_X = 95.047, XYZ_Y = 0.5, XYZ_Z = 0\<rparr>) =
     \<lparr>XYZ_X = 95.047, XYZ_Y = 0.5, XYZ_Z = 0\<rparr> \<and>
   clear_of_gap (lab_fx \<lparr>Lab_L = 100, Lab_a = 0, Lab_b = 180\<rparr>) \<and>
   clear_of_gap (lab_fy \<lparr>Lab_L = 100, Lab_a = 0, Lab_b = 180\<rparr>) \<and>
   clear_of_gap (lab_fz \<lparr>Lab_L = 100, Lab_a = 0, Lab_b = 180\<rparr>) \<and>
   xyzToLab (labToXyz \<lparr>Lab_L = 100, Lab_a = 0, Lab_b = 180\<rparr>) =
     \<lparr>Lab_L = 100, Lab_a = 0, Lab_b = 180\<rparr>"
  using C3_lab_round_trips [of "\<lparr>XYZ_X = 95.047, XYZ_Y = 0.5, XYZ_Z = 0\<rparr>"
      "\<lparr>Lab_L = 100, Lab_a = 0, Lab_b = 180\<rparr>"]
  by (simp add: clear_of_threshold_def clear_of_gap_def lab_fx_def lab_fy_def lab_fz_def
      REF_X_def REF_Y_def REF_Z_def)

text \<open>
  The counterexample to C3 as stated: at L = 7.999588, a = b = 0 the three locals are
  0.206893, in the gap. \<^verbatim>\<open>invf\<close> takes its linear branch, \<^verbatim>\<open>f\<close> its cube-root
  branch, and L does not come back.
\<close>

theorem C3_lab_counterexample:
  "xyzToLab (labToXyz \<lparr>Lab_L = 7.999588, Lab_a = 0, Lab_b = 0\<rparr>) \<noteq>
     \<lparr>Lab_L = 7.999588, Lab_a = 0, Lab_b = 0\<rparr>"
proof
  define u :: real where "u = 0.206893"
  define t :: real where "t = (u - 16 / 116) / 7.787"
  assume eq: "xyzToLab (labToXyz \<lparr>Lab_L = 7.999588, Lab_a = 0, Lab_b = 0\<rparr>) =
     \<lparr>Lab_L = 7.999588, Lab_a = 0, Lab_b = 0\<rparr>"
  have fy: "lab_fy \<lparr>Lab_L = 7.999588, Lab_a = 0, Lab_b = 0\<rparr> = u"
    by (simp add: lab_fy_def u_def)
  have small: "\<not> u * u * u > 0.008856" by (simp add: u_def)
  have i: "labToXyz_invf u = t" using small by (simp add: labToXyz_invf_def t_def)
  have big: "t > 0.008856" by (simp add: t_def u_def)
  have "Lab_L (xyzToLab (labToXyz \<lparr>Lab_L = 7.999588, Lab_a = 0, Lab_b = 0\<rparr>)) = 116 * xyzToLab_f t - 16"
    unfolding labToXyz_alt fy i by (simp add: xyzToLab_def Let_def REF_Y_def)
  also have "\<dots> = 116 * root 3 t - 16" using big by (simp add: xyzToLab_f_def)
  finally have "116 * root 3 t - 16 = 7.999588" using eq by simp
  then have "root 3 t = u" by (simp add: u_def)
  then have "root 3 t ^ 3 = u ^ 3" by simp
  moreover have "root 3 t ^ 3 = t" by (rule odd_real_root_pow) simp
  ultimately have "t = u ^ 3" by simp
  then show False by (simp add: t_def u_def power3_eq_cube)
qed

section \<open>C4: the clipping flag of xyzToRgb\<close>



section \<open>C5: the range of rgbToCmyk and the pure-black case\<close>

text \<open>
  Claim C5. For every RGB triple with each channel an integer in [0,255], the result of
  \<^verbatim>\<open>rgbToCmyk\<close> has c, m, y, k in [0,1], and whenever k reaches 1 within the epsilon
  1e-12 (the guard \<open>k < 1 - 1e-12\<close> fails), the result is c = m = y = 0 and k = 1.
\<close>

theorem C5_cmyk_range:
  assumes "rgb8 rgb"
  shows "0 \<le> CMYK_c (rgbToCmyk rgb) \<and> CMYK_c (rgbToCmyk rgb) \<le> 1 \<and>
         0 \<le> CMYK_m (rgbToCmyk rgb) \<and> CMYK_m (rgbToCmyk rgb) \<le> 1 \<and>
         0 \<le> CMYK_y (rgbToCmyk rgb) \<and> CMYK_y (rgbToCmyk rgb) \<le> 1 \<and>
         0 \<le> CMYK_k (rgbToCmyk rgb) \<and> CMYK_k (rgbToCmyk rgb) \<le> 1 \<and>
         (1 - 1 / 10 ^ 12 \<le> CMYK_k (rgbToCmyk rgb) \<longrightarrow>
            rgbToCmyk rgb = \<lparr>CMYK_c = 0, CMYK_m = 0, CMYK_y = 0, CMYK_k = 1\<rparr>)"
proof (cases "0 < max (max (RGB_r rgb) (RGB_g rgb)) (RGB_b rgb)")
  case True
  define m where "m = max (max (RGB_r rgb) (RGB_g rgb)) (RGB_b rgb)"
  have m1: "1 \<le> real_of_int m" using True by (simp add: m_def)
  have m255: "real_of_int m \<le> 255" using assms by (simp add: m_def rgb8_def)
  have lo: "0 \<le> real_of_int (RGB_r rgb)" "0 \<le> real_of_int (RGB_g rgb)"
    "0 \<le> real_of_int (RGB_b rgb)"
    using assms by (simp_all add: rgb8_def)
  have hi: "real_of_int (RGB_r rgb) \<le> real_of_int m" "real_of_int (RGB_g rgb) \<le> real_of_int m"
    "real_of_int (RGB_b rgb) \<le> real_of_int m"
    by (simp_all add: m_def)
  have frac: "0 \<le> (real_of_int m - x) / real_of_int m \<and> (real_of_int m - x) / real_of_int m \<le> 1"
    if "0 \<le> x" "x \<le> real_of_int m" for x
    using that m1 by (simp add: field_simps)
  have k: "\<not> 1 - 1 / 10 ^ 12 \<le> 1 - real_of_int m / 255"
    using m1 by simp
  show ?thesis
    unfolding rgbToCmyk_pos[OF True] m_def[symmetric] Let_def
    using frac[OF lo(1) hi(1)] frac[OF lo(2) hi(2)] frac[OF lo(3) hi(3)] m1 m255 k
    by simp
next
  case False
  then have le: "max (max (RGB_r rgb) (RGB_g rgb)) (RGB_b rgb) \<le> 0" by linarith
  with assms have z: "RGB_r rgb = 0" "RGB_g rgb = 0" "RGB_b rgb = 0"
    by (simp_all add: rgb8_def)
  show ?thesis
    unfolding rgbToCmyk_nonpos[OF le] by (simp add: z)
qed

theorem C5_cmyk_range_witness:
  "rgb8 \<lparr>RGB_r = 0, RGB_g = 0, RGB_b = 0\<rparr> \<and>
   1 - 1 / 10 ^ 12 \<le> CMYK_k (rgbToCmyk \<lparr>RGB_r = 0, RGB_g = 0, RGB_b = 0\<rparr>) \<and>
   rgbToCmyk \<lparr>RGB_r = 0, RGB_g = 0, RGB_b = 0\<rparr> =
     \<lparr>CMYK_c = 0, CMYK_m = 0, CMYK_y = 0, CMYK_k = 1\<rparr>"
  using C5_cmyk_range [of "\<lparr>RGB_r = 0, RGB_g = 0, RGB_b = 0\<rparr>"]
  by (simp add: rgb8_def rgbToCmyk_def)

section \<open>C6: the reference white in Lab\<close>

text \<open>
  Claim C6. \<^verbatim>\<open>xyzToLab\<close> applied to the fixed reference white
  (X = 95.047, Y = 100.0, Z = 108.883) yields exactly L = 100, a = 0, b = 0.
\<close>

theorem C6_reference_white:
  "xyzToLab \<lparr>XYZ_X = REF_X, XYZ_Y = REF_Y, XYZ_Z = REF_Z\<rparr> = \<lparr>Lab_L = 100, Lab_a = 0, Lab_b = 0\<rparr> \<and>
   REF_X = 95.047 \<and> REF_Y = 100 \<and> REF_Z = 108.883"
  by (simp add: xyzToLab_def xyzToLab_f_def REF_X_def REF_Y_def REF_Z_def)

section \<open>C7: no conversion fails\<close>

lemma checked_div_nonzero: "y \<noteq> 0 \<Longrightarrow> checked_div x y = Some (x / y)"
  by (simp add: checked_div_def)

lemma rgbToCmyk_chk_ok: "rgbToCmyk_chk rgb = Some (rgbToCmyk rgb)"
  by (simp add: rgbToCmyk_chk_def rgbToCmyk_def Let_def checked_div_nonzero)

lemma invGamma_chk_ok: "invGamma_chk v = Some (invGamma v)"
  by (simp add: invGamma_chk_def invGamma_def checked_pow_def checked_div_nonzero)

lemma gammaSRGB_chk_ok: "gammaSRGB_chk v = Some (gammaSRGB v)"
  by (simp add: gammaSRGB_chk_def gammaSRGB_def checked_pow_def checked_div_nonzero)

lemma rgbToXyz_chk_ok: "rgbToXyz_chk rgb = Some (rgbToXyz rgb)"
  by (simp add: rgbToXyz_chk_def rgbToXyz_def invGamma_chk_ok Let_def checked_div_nonzero)

lemma xyzToRgb_chk_ok: "xyzToRgb_chk oor xyz = Some (xyzToRgb oor xyz)"
  by (simp add: xyzToRgb_chk_def xyzToRgb_def xyzToRgb_gamma_def gammaSRGB_chk_ok Let_def
      checked_div_nonzero)

lemma xyzToLab_f_chk_ok: "xyzToLab_f_chk t = Some (xyzToLab_f t)"
  by (simp add: xyzToLab_f_chk_def xyzToLab_f_def checked_div_nonzero)

lemma labToXyz_invf_chk_ok: "labToXyz_invf_chk t = Some (labToXyz_invf t)"
  by (simp add: labToXyz_invf_chk_def labToXyz_invf_def checked_div_nonzero)

lemma xyzToLab_chk_ok: "xyzToLab_chk xyz = Some (xyzToLab xyz)"
  by (simp add: xyzToLab_chk_def xyzToLab_def xyzToLab_f_chk_ok Let_def
      REF_X_def REF_Y_def REF_Z_def checked_div_nonzero)

lemma labToXyz_chk_ok: "labToXyz_chk lab = Some (labToXyz lab)"
  by (simp add: labToXyz_chk_def labToXyz_def labToXyz_invf_chk_ok Let_def checked_div_nonzero)

text \<open>
  Claim C7. Every conversion function is a total function that never fails: the only
  input-dependent division, by \<open>1 - k\<close> in \<^verbatim>\<open>rgbToCmyk\<close>, occurs only under the guard
  \<open>k < 1 - 1e-12\<close>, so no division by zero is reachable for any input. Stated on the
  checked conversions: for every input each of them returns a result, never \<open>None\<close>, and
  the result is the one of the unchecked conversion. (\<^verbatim>\<open>cmykToRgb\<close> has no division
  and no \<^verbatim>\<open>std::pow\<close>.)
\<close>

theorem C7_conversions_total:
  "rgbToCmyk_chk rgb = Some (rgbToCmyk rgb) \<and>
   rgbToXyz_chk rgb = Some (rgbToXyz rgb) \<and>
   xyzToRgb_chk oor xyz = Some (xyzToRgb oor xyz) \<and>
   xyzToLab_chk xyz = Some (xyzToLab xyz) \<and>
   labToXyz_chk lab = Some (labToXyz lab) \<and>
   rgbToLab_chk rgb = Some (rgbToLab rgb) \<and>
   labToRgb_chk oor lab = Some (labToRgb oor lab)"
  by (simp add: rgbToCmyk_chk_ok rgbToXyz_chk_ok xyzToRgb_chk_ok xyzToLab_chk_ok
      labToXyz_chk_ok rgbToLab_chk_def rgbToLab_def labToRgb_chk_def labToRgb_def)

theorem C7_conversions_total_witness:
  "rgbToCmyk_chk \<lparr>RGB_r = 0, RGB_g = 0, RGB_b = 0\<rparr> =
     Some \<lparr>CMYK_c = 0, CMYK_m = 0, CMYK_y = 0, CMYK_k = 1\<rparr> \<and>
   rgbToCmyk_chk \<lparr>RGB_r = 255, RGB_g = 0, RGB_b = 51\<rparr> =
     Some \<lparr>CMYK_c = 0, CMYK_m = 1, CMYK_y = 4 / 5, CMYK_k = 0\<rparr>"
  using C7_conversions_total [of "\<lparr>RGB_r = 0, RGB_g = 0, RGB_b = 0\<rparr>"]
    C7_conversions_total [of "\<lparr>RGB_r = 255, RGB_g = 0, RGB_b = 51\<rparr>"]
  by (simp add: rgbToCmyk_def)

section \<open>C8: every conversion into RGB stays in [0,255]\<close>

text \<open>
  Claim C8. Every conversion whose result is an RgbColor (\<^verbatim>\<open>cmykToRgb\<close>,
  \<^verbatim>\<open>xyzToRgb\<close>, \<^verbatim>\<open>labToRgb\<close>) returns integer channels in [0,255] for every input,
  out-of-range inputs included, and whatever \<^verbatim>\<open>int\<close> the conversion of a
  \<^verbatim>\<open>double\<close> that does not fit yields.
\<close>

theorem C8_rgb_output_range:
  "rgb8 (cmykToRgb oor cmyk) \<and> rgb8 (fst (xyzToRgb oor xyz)) \<and> rgb8 (fst (labToRgb oor lab))"
  by (simp add: rgb8_def cmykToRgb_def xyzToRgb_def labToRgb_def Let_def clampInt_range
      split: prod.splits)

section \<open>C9: one of c, m, y is zero\<close>

text \<open>
  Claim C9. For every RGB triple with each channel an integer in [0,255], the result of
  \<^verbatim>\<open>rgbToCmyk\<close> has at least one of c, m, y exactly equal to 0.
\<close>

theorem C9_cmyk_zero_component:
  assumes "rgb8 rgb"
  shows "CMYK_c (rgbToCmyk rgb) = 0 \<or> CMYK_m (rgbToCmyk rgb) = 0 \<or> CMYK_y (rgbToCmyk rgb) = 0"
proof (cases "0 < max (max (RGB_r rgb) (RGB_g rgb)) (RGB_b rgb)")
  case True
  show ?thesis
    unfolding rgbToCmyk_pos[OF True] Let_def
    using max3_cases[of rgb] by auto
next
  case False
  then have le: "max (max (RGB_r rgb) (RGB_g rgb)) (RGB_b rgb) \<le> 0" by linarith
  show ?thesis
    unfolding rgbToCmyk_nonpos[OF le] by simp
qed

theorem C9_cmyk_zero_component_witness:
  "rgb8 \<lparr>RGB_r = 10, RGB_g = 200, RGB_b = 30\<rparr> \<and>
   (CMYK_c (rgbToCmyk \<lparr>RGB_r = 10, RGB_g = 200, RGB_b = 30\<rparr>) = 0 \<or>
    CMYK_m (rgbToCmyk \<lparr>RGB_r = 10, RGB_g = 200, RGB_b = 30\<rparr>) = 0 \<or>
    CMYK_y (rgbToCmyk \<lparr>RGB_r = 10, RGB_g = 200, RGB_b = 30\<rparr>) = 0)"
  using C9_cmyk_zero_component [of "\<lparr>RGB_r = 10, RGB_g = 200, RGB_b = 30\<rparr>"]
  by (simp add: rgb8_def)

section \<open>C10: rgbToXyz is monotone in each channel\<close>

lemma rgbToXyz_mono:
  assumes "RGB_r p \<le> RGB_r q" "RGB_g p \<le> RGB_g q" "RGB_b p \<le> RGB_b q"
  shows "XYZ_X (rgbToXyz p) \<le> XYZ_X (rgbToXyz q) \<and>
         XYZ_Y (rgbToXyz p) \<le> XYZ_Y (rgbToXyz q) \<and>
         XYZ_Z (rgbToXyz p) \<le> XYZ_Z (rgbToXyz q)"
proof -
  note r = invGamma_grid_mono[OF assms(1)]
  note g = invGamma_grid_mono[OF assms(2)]
  note b = invGamma_grid_mono[OF assms(3)]
  show ?thesis
    using r g b by (simp add: rgbToXyz_def Let_def)
qed

text \<open>
  Claim C10. For any two RGB triples with channels in [0,255] that agree on two channels
  while the third channel of the first is at most that of the second, each of X, Y, Z of
  the first result is at most the corresponding component of the second.
\<close>

theorem C10_rgbToXyz_monotone:
  assumes "rgb8 p" "rgb8 q"
    and "(RGB_r p \<le> RGB_r q \<and> RGB_g p = RGB_g q \<and> RGB_b p = RGB_b q) \<or>
         (RGB_r p = RGB_r q \<and> RGB_g p \<le> RGB_g q \<and> RGB_b p = RGB_b q) \<or>
         (RGB_r p = RGB_r q \<and> RGB_g p = RGB_g q \<and> RGB_b p \<le> RGB_b q)"
  shows "XYZ_X (rgbToXyz p) \<le> XYZ_X (rgbToXyz q) \<and>
         XYZ_Y (rgbToXyz p) \<le> XYZ_Y (rgbToXyz q) \<and>
         XYZ_Z (rgbToXyz p) \<le> XYZ_Z (rgbToXyz q)"
proof (rule rgbToXyz_mono)
  show "RGB_r p \<le> RGB_r q" using assms(3) by auto
  show "RGB_g p \<le> RGB_g q" using assms(3) by auto
  show "RGB_b p \<le> RGB_b q" using assms(3) by auto
qed

theorem C10_rgbToXyz_monotone_witness:
  "rgb8 \<lparr>RGB_r = 10, RGB_g = 0, RGB_b = 0\<rparr> \<and> rgb8 \<lparr>RGB_r = 11, RGB_g = 0, RGB_b = 0\<rparr> \<and>
   XYZ_X (rgbToXyz \<lparr>RGB_r = 10, RGB_g = 0, RGB_b = 0\<rparr>) \<le> XYZ_X (rgbToXyz \<lparr>RGB_r = 11, RGB_g = 0, RGB_b = 0\<rparr>) \<and>
   XYZ_Y (rgbToXyz \<lparr>RGB_r = 10, RGB_g = 0, RGB_b = 0\<rparr>) \<le> XYZ_Y (rgbToXyz \<lparr>RGB_r = 11, RGB_g = 0, RGB_b = 0\<rparr>) \<and>
   XYZ_Z (rgbToXyz \<lparr>RGB_r = 10, RGB_g = 0, RGB_b = 0\<rparr>) \<le> XYZ_Z (rgbToXyz \<lparr>RGB_r = 11, RGB_g = 0, RGB_b = 0\<rparr>)"
  using C10_rgbToXyz_monotone [of "\<lparr>RGB_r = 10, RGB_g = 0, RGB_b = 0\<rparr>" "\<lparr>RGB_r = 11, RGB_g = 0, RGB_b = 0\<rparr>"]
  by (simp add: rgb8_def)

end
